theory Spec2Isabelle
  imports Main
begin

section \<open>Quiz Master: the relational store and its request handlers\<close>

text \<open>
  The program is a single script, \<^verbatim>\<open>app.py\<close>, whose page functions read widget
  values and run SQL statements against six tables. The model keeps the six tables as
  lists of rows in insertion order, and every handler (the body of an
  \<^verbatim>\<open>if st.form_submit_button(...)\<close> or \<^verbatim>\<open>if st.button(...)\<close> block) as a function
  from the store and the widget values to either an error or the committed store.
  Widget values (text inputs, the id chosen in a select box, the date already formatted
  by \<^verbatim>\<open>strftime('%Y-%m-%d')\<close>, the clock reading) are parameters of the handlers.
\<close>

subsection \<open>Text\<close>

text \<open>
  A Python \<^verbatim>\<open>str\<close> is modelled as a \<^typ>\<open>string\<close>, one \<^typ>\<open>char\<close> per code point
  (code points 0 to 255). \<^verbatim>\<open>str.strip()\<close> removes leading and trailing whitespace;
  in this range the whitespace code points are 9 to 13, 28 to 32, 133 and 160.
\<close>

definition isspace :: "char \<Rightarrow> bool" where
  "isspace c =
     (let n = (of_char c :: nat)
      in (9 \<le> n \<and> n \<le> 13) \<or> (28 \<le> n \<and> n \<le> 32) \<or> n = 133 \<or> n = 160)"

definition strip :: "string \<Rightarrow> string" where
  "strip s = rev (dropWhile isspace (rev (dropWhile isspace s)))"

text \<open>\<^verbatim>\<open>s.split(':')\<close>: the pieces between the separators, empty pieces included.\<close>

fun split_acc :: "char \<Rightarrow> string \<Rightarrow> string \<Rightarrow> string list" where
  "split_acc sep acc [] = [rev acc]"
| "split_acc sep acc (c # cs) =
     (if c = sep then rev acc # split_acc sep [] cs else split_acc sep (c # acc) cs)"

definition split :: "string \<Rightarrow> char \<Rightarrow> string list" where
  "split s sep = split_acc sep [] s"

text \<open>
  \<^verbatim>\<open>int(s)\<close> on a \<^verbatim>\<open>str\<close>: surrounding whitespace is dropped, one sign is allowed,
  then decimal digits follow, single underscores allowed between two digits. Anything
  else raises \<^verbatim>\<open>ValueError\<close> (\<^const>\<open>None\<close> here). The interpreter's limit on the
  number of digits of a literal is not modelled.
\<close>

definition isdigit :: "char \<Rightarrow> bool" where
  "isdigit c = (let n = (of_char c :: nat) in 48 \<le> n \<and> n \<le> 57)"

definition digit_val :: "char \<Rightarrow> int" where
  "digit_val c = int (of_char c) - 48"

fun digits_acc :: "int \<Rightarrow> string \<Rightarrow> int option" where
  "digits_acc acc [] = Some acc"
| "digits_acc acc [c] = (if isdigit c then Some (10 * acc + digit_val c) else None)"
| "digits_acc acc (c # d # ds) =
     (if isdigit c then digits_acc (10 * acc + digit_val c) (d # ds)
      else if c = CHR ''_'' \<and> isdigit d then digits_acc (10 * acc + digit_val d) ds
      else None)"

definition digits :: "string \<Rightarrow> int option" where
  "digits s = (case s of [] \<Rightarrow> None
               | c # cs \<Rightarrow> if isdigit c then digits_acc (digit_val c) cs else None)"

definition py_int :: "string \<Rightarrow> int option" where
  "py_int s =
     (case strip s of
        [] \<Rightarrow> None
      | c # cs \<Rightarrow>
          if c = CHR ''-'' then map_option uminus (digits cs)
          else if c = CHR ''+'' then digits cs
          else digits (c # cs))"

subsection \<open>Errors\<close>

text \<open>
  The handlers report a failure with \<^verbatim>\<open>st.error\<close> or \<^verbatim>\<open>st.warning\<close> and commit
  nothing. The constructors name the kinds of failure by their messages:
  \<^item> \<open>ValidationError\<close>: "... is required!", "Please fill all required fields ...",
    "Passwords don't match!";
  \<^item> \<open>InvalidDurationError\<close>: "Invalid duration format! Use HH:MM";
  \<^item> \<open>DuplicateUserError\<close>: "Username already exists!" (\<^verbatim>\<open>sqlite3.IntegrityError\<close>);
  \<^item> \<open>HasDependentsError\<close>: "Cannot delete - ... has ...!";
  \<^item> \<open>ProtectedAccountError\<close>: "Cannot delete admin user!";
  \<^item> \<open>AlreadyAttemptedError\<close>: "You have already taken this quiz.";
  \<^item> \<open>Unavailable\<close>: "No quizzes available at the moment.", "This quiz has no
    questions yet.";
  \<^item> \<open>NotFound\<close>: the row an edit form is built from does not exist, so no form is shown;
  \<^item> \<open>TypeError\<close>, \<open>ValueError\<close>: the Python exception that leaves the handler
    (\<^verbatim>\<open>fetchone()[0]\<close> on no row, a stored duration that does not parse).
\<close>

datatype error =
    ValidationError
  | InvalidDurationError
  | DuplicateUserError
  | HasDependentsError
  | ProtectedAccountError
  | AlreadyAttemptedError
  | Unavailable
  | NotFound
  | TypeError
  | ValueError

subsection \<open>Tables\<close>

text \<open>
  One record per table, one field per column, named table and column. A nullable column
  that some statement leaves \<^verbatim>\<open>NULL\<close> is an \<^typ>\<open>'a option\<close>. The ids are those of
  \<^verbatim>\<open>INTEGER PRIMARY KEY AUTOINCREMENT\<close>: the store keeps, per table, the largest id
  ever given (SQLite's \<^verbatim>\<open>sqlite_sequence\<close>), and an insert takes the next one.
\<close>

record users_row =
  users_id :: nat
  users_username :: string
  users_password :: string
  users_full_name :: string
  users_qualification :: "string option"
  users_dob :: "string option"
  users_role :: string
  users_email :: "string option"
  users_last_login :: "string option"

record subjects_row =
  subjects_id :: nat
  subjects_name :: string
  subjects_description :: string

record chapters_row =
  chapters_id :: nat
  chapters_subject_id :: nat
  chapters_name :: string
  chapters_description :: string

record quizzes_row =
  quizzes_id :: nat
  quizzes_chapter_id :: nat
  quizzes_name :: string
  quizzes_description :: string
  quizzes_date_of_quiz :: string
  quizzes_time_duration :: string
  quizzes_is_active :: bool

record questions_row =
  questions_id :: nat
  questions_quiz_id :: nat
  questions_question_statement :: string
  questions_option1 :: string
  questions_option2 :: string
  questions_option3 :: "string option"
  questions_option4 :: "string option"
  questions_correct_option :: int

record scores_row =
  scores_id :: nat
  scores_quiz_id :: nat
  scores_user_id :: nat
  scores_time_stamp :: string
  scores_total_scored :: nat
  scores_total_questions :: nat

record db =
  users :: "users_row list"
  subjects :: "subjects_row list"
  chapters :: "chapters_row list"
  quizzes :: "quizzes_row list"
  questions :: "questions_row list"
  scores :: "scores_row list"
  seq_users :: nat
  seq_subjects :: nat
  seq_chapters :: nat
  seq_quizzes :: nat
  seq_questions :: nat
  seq_scores :: nat

text \<open>\<^verbatim>\<open>init_db\<close> on a fresh file: six empty tables and the seeded administrator.\<close>

definition init_db :: db where
  "init_db =
     \<lparr>users = [\<lparr>users_id = 1, users_username = ''admin'', users_password = ''admin123'',
                users_full_name = ''Admin User'', users_qualification = None,
                users_dob = None, users_role = ''admin'', users_email = None,
                users_last_login = None\<rparr>],
      subjects = [], chapters = [], quizzes = [], questions = [], scores = [],
      seq_users = 1, seq_subjects = 0, seq_chapters = 0, seq_quizzes = 0,
      seq_questions = 0, seq_scores = 0\<rparr>"

subsection \<open>Helper functions\<close>

text \<open>
  \<^verbatim>\<open>fetchone()\<close> is the first row of the result, or \<^verbatim>\<open>None\<close>: \<^const>\<open>find\<close> on
  the table. \<^verbatim>\<open>get_current_user\<close> reads the session, which may hold no user name; a
  \<^verbatim>\<open>NULL\<close> parameter matches no row. \<^verbatim>\<open>get_user_id\<close> subscripts
  \<^verbatim>\<open>fetchone()\<close> without a check.
\<close>

definition get_user_id :: "db \<Rightarrow> string option \<Rightarrow> error + nat" where
  "get_user_id d username =
     (case find (\<lambda>u. Some (users_username u) = username) (users d) of
        None \<Rightarrow> Inl TypeError
      | Some u \<Rightarrow> Inr (users_id u))"

definition validate_login :: "db \<Rightarrow> string \<Rightarrow> string \<Rightarrow> string option" where
  "validate_login d username password =
     (case find (\<lambda>u. users_username u = username) (users d) of
        None \<Rightarrow> None
      | Some u \<Rightarrow> if users_password u = password then Some (users_role u) else None)"

subsection \<open>Authentication\<close>

text \<open>
  \<^verbatim>\<open>login_page\<close>, on submit: a role that is the empty string is falsy, so it is
  refused as a failed login is; the only write is \<^verbatim>\<open>last_login\<close>.
\<close>

definition login_page :: "db \<Rightarrow> string \<Rightarrow> string \<Rightarrow> string \<Rightarrow> error + db" where
  "login_page d username password now =
     (case validate_login d username password of
        None \<Rightarrow> Inl ValidationError
      | Some r \<Rightarrow>
          if r = [] then Inl ValidationError
          else Inr (d\<lparr>users :=
                 map (\<lambda>u. if users_username u = username
                           then u\<lparr>users_last_login := Some now\<rparr> else u) (users d)\<rparr>))"

text \<open>
  \<^verbatim>\<open>register_page\<close>, on submit. The insert names four columns; \<^verbatim>\<open>role\<close> takes
  its column default and the other columns are \<^verbatim>\<open>NULL\<close>. The \<^verbatim>\<open>UNIQUE\<close> constraint
  on \<^verbatim>\<open>username\<close> raises \<^verbatim>\<open>sqlite3.IntegrityError\<close>, which the handler catches.
\<close>

definition register_page ::
  "db \<Rightarrow> string \<Rightarrow> string \<Rightarrow> string \<Rightarrow> string \<Rightarrow> string \<Rightarrow> error + db" where
  "register_page d username password confirm_password full_name email =
     (if password \<noteq> confirm_password then Inl ValidationError
      else if username \<in> set (map users_username (users d)) then Inl DuplicateUserError
      else Inr (d\<lparr>users := users d @
                   [\<lparr>users_id = seq_users d + 1, users_username = username,
                     users_password = password, users_full_name = full_name,
                     users_qualification = None, users_dob = None,
                     users_role = ''user'', users_email = Some email,
                     users_last_login = None\<rparr>],
                 seq_users := seq_users d + 1\<rparr>))"

subsection \<open>Subjects\<close>

text \<open>
  \<^verbatim>\<open>manage_subjects\<close>. The add form comes first; the edit form and the delete button
  are shown only when the table is not empty, and the edit form only when the selected
  row is found. \<^verbatim>\<open>not name\<close> holds for the empty string only.
\<close>

definition manage_subjects_add :: "db \<Rightarrow> string \<Rightarrow> string \<Rightarrow> error + db" where
  "manage_subjects_add d name description =
     (if name = [] then Inl ValidationError
      else Inr (d\<lparr>subjects := subjects d @
                   [\<lparr>subjects_id = seq_subjects d + 1, subjects_name = strip name,
                     subjects_description = strip description\<rparr>],
                 seq_subjects := seq_subjects d + 1\<rparr>))"

definition manage_subjects_edit_form :: "db \<Rightarrow> nat \<Rightarrow> error + subjects_row" where
  "manage_subjects_edit_form d subject_id =
     (if subjects d = [] then Inl Unavailable
      else case find (\<lambda>s. subjects_id s = subject_id) (subjects d) of
        None \<Rightarrow> Inl NotFound
      | Some subject \<Rightarrow> Inr subject)"

definition manage_subjects_update :: "db \<Rightarrow> nat \<Rightarrow> string \<Rightarrow> string \<Rightarrow> error + db" where
  "manage_subjects_update d subject_id new_name new_desc =
     (case manage_subjects_edit_form d subject_id of
        Inl e \<Rightarrow> Inl e
      | Inr subject \<Rightarrow>
          if new_name = [] then Inl ValidationError
          else Inr (d\<lparr>subjects :=
                 map (\<lambda>s. if subjects_id s = subject_id
                           then s\<lparr>subjects_name := strip new_name,
                                  subjects_description := strip new_desc\<rparr>
                           else s) (subjects d)\<rparr>))"

definition manage_subjects_delete :: "db \<Rightarrow> nat \<Rightarrow> error + db" where
  "manage_subjects_delete d subject_id =
     (if subjects d = [] then Inl Unavailable
      else if length (filter (\<lambda>c. chapters_subject_id c = subject_id) (chapters d)) > 0
      then Inl HasDependentsError
      else Inr (d\<lparr>subjects := filter (\<lambda>s. subjects_id s \<noteq> subject_id) (subjects d)\<rparr>))"

subsection \<open>Chapters\<close>

text \<open>
  \<^verbatim>\<open>manage_chapters\<close> returns at once when there is no subject. The chapters listed
  are those of the subject chosen in the filter, joined with their subject; the edit form
  and the delete button exist only when that listing is not empty. Building the edit
  form looks the chapter's subject up among the subject ids with \<^verbatim>\<open>list.index\<close>, which
  raises \<^verbatim>\<open>ValueError\<close> when it is absent.
\<close>

definition chapters_listing :: "db \<Rightarrow> nat \<Rightarrow> chapters_row list" where
  "chapters_listing d selected_subject =
     [c. c \<leftarrow> chapters d, s \<leftarrow> subjects d, chapters_subject_id c = subjects_id s,
         chapters_subject_id c = selected_subject]"

definition manage_chapters_add :: "db \<Rightarrow> nat \<Rightarrow> string \<Rightarrow> string \<Rightarrow> error + db" where
  "manage_chapters_add d subject_id name description =
     (if subjects d = [] then Inl Unavailable
      else if name = [] then Inl ValidationError
      else Inr (d\<lparr>chapters := chapters d @
                   [\<lparr>chapters_id = seq_chapters d + 1, chapters_subject_id = subject_id,
                     chapters_name = strip name,
                     chapters_description = strip description\<rparr>],
                 seq_chapters := seq_chapters d + 1\<rparr>))"

definition manage_chapters_edit_form :: "db \<Rightarrow> nat \<Rightarrow> nat \<Rightarrow> error + chapters_row" where
  "manage_chapters_edit_form d selected_subject chapter_id =
     (if subjects d = [] then Inl Unavailable
      else if chapters_listing d selected_subject = [] then Inl Unavailable
      else case find (\<lambda>c. chapters_id c = chapter_id) (chapters d) of
        None \<Rightarrow> Inl NotFound
      | Some chapter \<Rightarrow>
          if chapters_subject_id chapter \<notin> set (map subjects_id (subjects d))
          then Inl ValueError
          else Inr chapter)"

definition manage_chapters_update ::
  "db \<Rightarrow> nat \<Rightarrow> nat \<Rightarrow> nat \<Rightarrow> string \<Rightarrow> string \<Rightarrow> error + db" where
  "manage_chapters_update d selected_subject chapter_id new_subject new_name new_desc =
     (case manage_chapters_edit_form d selected_subject chapter_id of
        Inl e \<Rightarrow> Inl e
      | Inr chapter \<Rightarrow>
          if new_name = [] then Inl ValidationError
          else Inr (d\<lparr>chapters :=
                 map (\<lambda>c. if chapters_id c = chapter_id
                           then c\<lparr>chapters_subject_id := new_subject,
                                  chapters_name := strip new_name,
                                  chapters_description := strip new_desc\<rparr>
                           else c) (chapters d)\<rparr>))"

definition manage_chapters_delete :: "db \<Rightarrow> nat \<Rightarrow> nat \<Rightarrow> error + db" where
  "manage_chapters_delete d selected_subject chapter_id =
     (if subjects d = [] then Inl Unavailable
      else if chapters_listing d selected_subject = [] then Inl Unavailable
      else if length (filter (\<lambda>q. quizzes_chapter_id q = chapter_id) (quizzes d)) > 0
      then Inl HasDependentsError
      else Inr (d\<lparr>chapters := filter (\<lambda>c. chapters_id c \<noteq> chapter_id) (chapters d)\<rparr>))"

subsection \<open>Quizzes\<close>

text \<open>
  \<^verbatim>\<open>manage_quizzes\<close> returns at once when no chapter joins with a subject. The
  duration is checked in two steps: a name, a duration and a colon in it are required
  first; then \<^verbatim>\<open>hours, minutes = map(int, time_duration.split(':'))\<close> must unpack to
  exactly two integers, with \<^verbatim>\<open>hours < 0 or minutes < 0 or minutes >= 60\<close> raising
  too. The stored duration is the text as typed. A new quiz is active by the column's
  default. The result of a handler is the store as committed: what the page displays
  after \<^verbatim>\<open>conn.commit()\<close> (the success message, the rerun) is not modelled.
\<close>

definition chapter_options :: "db \<Rightarrow> chapters_row list" where
  "chapter_options d =
     [c. c \<leftarrow> chapters d, s \<leftarrow> subjects d, chapters_subject_id c = subjects_id s]"

definition quizzes_listing :: "db \<Rightarrow> nat \<Rightarrow> quizzes_row list" where
  "quizzes_listing d selected_chapter =
     [q. q \<leftarrow> quizzes d, c \<leftarrow> chapters d, quizzes_chapter_id q = chapters_id c,
         s \<leftarrow> subjects d, chapters_subject_id c = subjects_id s,
         quizzes_chapter_id q = selected_chapter]"

definition parse_duration :: "string \<Rightarrow> (int \<times> int) option" where
  "parse_duration time_duration =
     (case map py_int (split time_duration CHR '':'') of
        [Some hours, Some minutes] \<Rightarrow> Some (hours, minutes)
      | _ \<Rightarrow> None)"

definition valid_duration :: "string \<Rightarrow> bool" where
  "valid_duration time_duration =
     (case parse_duration time_duration of
        None \<Rightarrow> False
      | Some (hours, minutes) \<Rightarrow> \<not> (hours < 0 \<or> minutes < 0 \<or> minutes \<ge> 60))"

definition manage_quizzes_add ::
  "db \<Rightarrow> nat \<Rightarrow> string \<Rightarrow> string \<Rightarrow> string \<Rightarrow> string \<Rightarrow> error + db" where
  "manage_quizzes_add d chapter_id name description date_of_quiz time_duration =
     (if chapter_options d = [] then Inl Unavailable
      else if name = [] \<or> time_duration = [] \<or> CHR '':'' \<notin> set time_duration
      then Inl ValidationError
      else if \<not> valid_duration time_duration then Inl InvalidDurationError
      else Inr (d\<lparr>quizzes := quizzes d @
                   [\<lparr>quizzes_id = seq_quizzes d + 1, quizzes_chapter_id = chapter_id,
                     quizzes_name = strip name, quizzes_description = strip description,
                     quizzes_date_of_quiz = date_of_quiz,
                     quizzes_time_duration = time_duration,
                     quizzes_is_active = True\<rparr>],
                 seq_quizzes := seq_quizzes d + 1\<rparr>))"

definition manage_quizzes_edit_form :: "db \<Rightarrow> nat \<Rightarrow> nat \<Rightarrow> error + quizzes_row" where
  "manage_quizzes_edit_form d selected_chapter quiz_id =
     (if chapter_options d = [] then Inl Unavailable
      else if quizzes_listing d selected_chapter = [] then Inl Unavailable
      else case find (\<lambda>q. quizzes_id q = quiz_id) (quizzes d) of
        None \<Rightarrow> Inl NotFound
      | Some quiz \<Rightarrow>
          if quizzes_chapter_id quiz \<notin> set (map chapters_id (chapter_options d))
          then Inl ValueError
          else Inr quiz)"

definition manage_quizzes_update ::
  "db \<Rightarrow> nat \<Rightarrow> nat \<Rightarrow> nat \<Rightarrow> string \<Rightarrow> string \<Rightarrow> string \<Rightarrow> string \<Rightarrow> bool \<Rightarrow> error + db" where
  "manage_quizzes_update d selected_chapter quiz_id new_chapter new_name new_desc new_date
       new_duration is_active =
     (case manage_quizzes_edit_form d selected_chapter quiz_id of
        Inl e \<Rightarrow> Inl e
      | Inr quiz \<Rightarrow>
          if new_name = [] \<or> new_duration = [] \<or> CHR '':'' \<notin> set new_duration
          then Inl ValidationError
          else if \<not> valid_duration new_duration then Inl InvalidDurationError
          else Inr (d\<lparr>quizzes :=
                 map (\<lambda>q. if quizzes_id q = quiz_id
                           then q\<lparr>quizzes_chapter_id := new_chapter,
                                  quizzes_name := strip new_name,
                                  quizzes_description := strip new_desc,
                                  quizzes_date_of_quiz := new_date,
                                  quizzes_time_duration := new_duration,
                                  quizzes_is_active := is_active\<rparr>
                           else q) (quizzes d)\<rparr>))"

definition manage_quizzes_delete :: "db \<Rightarrow> nat \<Rightarrow> nat \<Rightarrow> error + db" where
  "manage_quizzes_delete d selected_chapter quiz_id =
     (if chapter_options d = [] then Inl Unavailable
      else if quizzes_listing d selected_chapter = [] then Inl Unavailable
      else if length (filter (\<lambda>q. questions_quiz_id q = quiz_id) (questions d)) > 0
      then Inl HasDependentsError
      else Inr (d\<lparr>quizzes := filter (\<lambda>q. quizzes_id q \<noteq> quiz_id) (quizzes d)\<rparr>))"

subsection \<open>Questions\<close>

text \<open>
  \<^verbatim>\<open>manage_questions\<close> returns at once when there is no active quiz (joined with its
  chapter and subject). The statement and the first two options must be non-empty as
  typed; the four texts are stored stripped, an empty third or fourth option as
  \<^verbatim>\<open>NULL\<close>. The correct option is the value of a radio control over 1, 2, 3, 4 and is
  stored as it is. Deleting a question has no guard.
\<close>

definition quiz_options :: "db \<Rightarrow> quizzes_row list" where
  "quiz_options d =
     [q. q \<leftarrow> quizzes d, c \<leftarrow> chapters d, quizzes_chapter_id q = chapters_id c,
         s \<leftarrow> subjects d, chapters_subject_id c = subjects_id s, quizzes_is_active q]"

definition optional_text :: "string \<Rightarrow> string option" where
  "optional_text t = (if t \<noteq> [] then Some (strip t) else None)"

definition manage_questions_add ::
  "db \<Rightarrow> nat \<Rightarrow> string \<Rightarrow> string \<Rightarrow> string \<Rightarrow> string \<Rightarrow> string \<Rightarrow> int \<Rightarrow> error + db" where
  "manage_questions_add d quiz_id question option1 option2 option3 option4 correct_option =
     (if quiz_options d = [] then Inl Unavailable
      else if question = [] \<or> option1 = [] \<or> option2 = [] then Inl ValidationError
      else Inr (d\<lparr>questions := questions d @
                   [\<lparr>questions_id = seq_questions d + 1, questions_quiz_id = quiz_id,
                     questions_question_statement = strip question,
                     questions_option1 = strip option1,
                     questions_option2 = strip option2,
                     questions_option3 = optional_text option3,
                     questions_option4 = optional_text option4,
                     questions_correct_option = correct_option\<rparr>],
                 seq_questions := seq_questions d + 1\<rparr>))"

definition manage_questions_edit_form :: "db \<Rightarrow> nat \<Rightarrow> nat \<Rightarrow> error + questions_row" where
  "manage_questions_edit_form d selected_quiz question_id =
     (if quiz_options d = [] then Inl Unavailable
      else if filter (\<lambda>q. questions_quiz_id q = selected_quiz) (questions d) = []
      then Inl Unavailable
      else case find (\<lambda>q. questions_id q = question_id) (questions d) of
        None \<Rightarrow> Inl NotFound
      | Some question \<Rightarrow>
          if questions_quiz_id question \<notin> set (map quizzes_id (quiz_options d))
          then Inl ValueError
          else Inr question)"

definition manage_questions_update ::
  "db \<Rightarrow> nat \<Rightarrow> nat \<Rightarrow> nat \<Rightarrow> string \<Rightarrow> string \<Rightarrow> string \<Rightarrow> string \<Rightarrow> string \<Rightarrow> int
     \<Rightarrow> error + db" where
  "manage_questions_update d selected_quiz question_id new_quiz new_question new_option1
       new_option2 new_option3 new_option4 new_correct =
     (case manage_questions_edit_form d selected_quiz question_id of
        Inl e \<Rightarrow> Inl e
      | Inr question \<Rightarrow>
          if new_question = [] \<or> new_option1 = [] \<or> new_option2 = []
          then Inl ValidationError
          else Inr (d\<lparr>questions :=
                 map (\<lambda>q. if questions_id q = question_id
                           then q\<lparr>questions_quiz_id := new_quiz,
                                  questions_question_statement := strip new_question,
                                  questions_option1 := strip new_option1,
                                  questions_option2 := strip new_option2,
                                  questions_option3 := optional_text new_option3,
                                  questions_option4 := optional_text new_option4,
                                  questions_correct_option := new_correct\<rparr>
                           else q) (questions d)\<rparr>))"

definition manage_questions_delete :: "db \<Rightarrow> nat \<Rightarrow> nat \<Rightarrow> error + db" where
  "manage_questions_delete d selected_quiz question_id =
     (if quiz_options d = [] then Inl Unavailable
      else if filter (\<lambda>q. questions_quiz_id q = selected_quiz) (questions d) = []
      then Inl Unavailable
      else Inr (d\<lparr>questions :=
                   filter (\<lambda>q. questions_id q \<noteq> question_id) (questions d)\<rparr>))"

subsection \<open>Users\<close>

text \<open>
  \<^verbatim>\<open>manage_users\<close>. The edit form shows the user name as text and writes five columns
  of the row with the selected id. The delete button reads the role with
  \<^verbatim>\<open>fetchone()[0]\<close>, then counts the user's scores.
\<close>

definition manage_users_edit_form :: "db \<Rightarrow> nat \<Rightarrow> error + users_row" where
  "manage_users_edit_form d user_id =
     (if users d = [] then Inl Unavailable
      else case find (\<lambda>u. users_id u = user_id) (users d) of
        None \<Rightarrow> Inl NotFound
      | Some user \<Rightarrow> Inr user)"

definition manage_users_update ::
  "db \<Rightarrow> nat \<Rightarrow> string \<Rightarrow> string \<Rightarrow> string \<Rightarrow> string \<Rightarrow> string \<Rightarrow> error + db" where
  "manage_users_update d user_id new_fullname new_qual new_dob new_email new_role =
     (case manage_users_edit_form d user_id of
        Inl e \<Rightarrow> Inl e
      | Inr user \<Rightarrow>
          Inr (d\<lparr>users :=
             map (\<lambda>u. if users_id u = user_id
                       then u\<lparr>users_full_name := strip new_fullname,
                              users_qualification := Some (strip new_qual),
                              users_dob := Some new_dob,
                              users_email := Some (strip new_email),
                              users_role := new_role\<rparr>
                       else u) (users d)\<rparr>))"

definition manage_users_delete :: "db \<Rightarrow> nat \<Rightarrow> error + db" where
  "manage_users_delete d user_id =
     (if users d = [] then Inl Unavailable
      else case find (\<lambda>u. users_id u = user_id) (users d) of
        None \<Rightarrow> Inl TypeError
      | Some user \<Rightarrow>
          if users_role user = ''admin'' then Inl ProtectedAccountError
          else if length (filter (\<lambda>s. scores_user_id s = user_id) (scores d)) > 0
          then Inl HasDependentsError
          else Inr (d\<lparr>users := filter (\<lambda>u. users_id u \<noteq> user_id) (users d)\<rparr>))"

subsection \<open>Taking a quiz\<close>

text \<open>
  Grading one answer: the inner loop of \<^verbatim>\<open>take_quiz\<close> walks the four option slots with
  \<^verbatim>\<open>enumerate(options, 1)\<close> and stops at the first slot that is truthy (neither
  \<^verbatim>\<open>NULL\<close> nor empty) and equal to the answer. \<^verbatim>\<open>selected_option\<close> stays
  \<^verbatim>\<open>None\<close> when no slot matches, and \<^verbatim>\<open>None == correct_opt\<close> is false.
\<close>

fun selected_option :: "int \<Rightarrow> string option list \<Rightarrow> string \<Rightarrow> int option" where
  "selected_option i [] user_answer = None"
| "selected_option i (opt # opts) user_answer =
     (if opt \<noteq> None \<and> opt \<noteq> Some [] \<and> opt = Some user_answer then Some i
      else selected_option (i + 1) opts user_answer)"

definition option_slots :: "questions_row \<Rightarrow> string option list" where
  "option_slots q =
     [Some (questions_option1 q), Some (questions_option2 q),
      questions_option3 q, questions_option4 q]"

text \<open>
  The outer loop runs over the items of the \<^verbatim>\<open>answers\<close> dictionary and looks each
  question up again by id; \<^verbatim>\<open>fetchone()[0]\<close> raises when the row is gone.
\<close>

fun calculate_score :: "db \<Rightarrow> (nat \<times> string) list \<Rightarrow> nat \<Rightarrow> error + nat" where
  "calculate_score d [] score = Inr score"
| "calculate_score d ((q_id, user_answer) # answers) score =
     (case find (\<lambda>q. questions_id q = q_id) (questions d) of
        None \<Rightarrow> Inl TypeError
      | Some q \<Rightarrow>
          calculate_score d answers
            (if selected_option 1 (option_slots q) user_answer
                  = Some (questions_correct_option q)
             then score + 1 else score))"

text \<open>
  The form: for each question of the quiz one radio control over its rendered options
  (the first two always, the third and fourth when truthy); its value is stored in the
  dictionary under the question's id, a later question with the same id replacing the
  value in place. The value of the control of question \<open>q_id\<close> is \<open>choice q_id\<close>.
\<close>

definition rendered_options :: "questions_row \<Rightarrow> string list" where
  "rendered_options q =
     [questions_option1 q, questions_option2 q]
     @ (case questions_option3 q of None \<Rightarrow> [] | Some t \<Rightarrow> if t \<noteq> [] then [t] else [])
     @ (case questions_option4 q of None \<Rightarrow> [] | Some t \<Rightarrow> if t \<noteq> [] then [t] else [])"

fun dict_set :: "'k \<Rightarrow> 'v \<Rightarrow> ('k \<times> 'v) list \<Rightarrow> ('k \<times> 'v) list" where
  "dict_set k v [] = [(k, v)]"
| "dict_set k v ((k', v') # kvs) =
     (if k' = k then (k, v) # kvs else (k', v') # dict_set k v kvs)"

definition collect_answers :: "questions_row list \<Rightarrow> (nat \<Rightarrow> string) \<Rightarrow> (nat \<times> string) list" where
  "collect_answers qs choice =
     foldl (\<lambda>answers q. dict_set (questions_id q) (choice (questions_id q)) answers) [] qs"

text \<open>
  \<^verbatim>\<open>take_quiz\<close>, in the order of the source: no active quiz, the user's id, the
  attempt already recorded, the quiz's duration (read and parsed, then only displayed),
  the quiz's questions, the form, and on submission the grading and the one insert into
  \<^verbatim>\<open>scores\<close>. \<open>submission\<close> is \<^const>\<open>None\<close> when the page is only rendered.
\<close>

datatype take_quiz_result =
    Rendered "(nat \<times> string list) list"
  | Submitted db nat nat

definition insert_score :: "db \<Rightarrow> nat \<Rightarrow> nat \<Rightarrow> string \<Rightarrow> nat \<Rightarrow> nat \<Rightarrow> db" where
  "insert_score d quiz_id user_id timestamp score total_questions =
     d\<lparr>scores := scores d @
          [\<lparr>scores_id = seq_scores d + 1, scores_quiz_id = quiz_id,
            scores_user_id = user_id, scores_time_stamp = timestamp,
            scores_total_scored = score, scores_total_questions = total_questions\<rparr>],
       seq_scores := seq_scores d + 1\<rparr>"

definition take_quiz ::
  "db \<Rightarrow> string option \<Rightarrow> nat \<Rightarrow> (nat \<Rightarrow> string) option \<Rightarrow> string
     \<Rightarrow> error + take_quiz_result" where
  "take_quiz d current_user selected_quiz submission timestamp =
     (if quiz_options d = [] then Inl Unavailable
      else
       (case get_user_id d current_user of
          Inl e \<Rightarrow> Inl e
        | Inr user_id \<Rightarrow>
           (if length (filter (\<lambda>s. scores_quiz_id s = selected_quiz
                                   \<and> scores_user_id s = user_id) (scores d)) > 0
            then Inl AlreadyAttemptedError
            else
             (case find (\<lambda>q. quizzes_id q = selected_quiz) (quizzes d) of
                None \<Rightarrow> Inl TypeError
              | Some quiz \<Rightarrow>
                 (case parse_duration (quizzes_time_duration quiz) of
                    None \<Rightarrow> Inl ValueError
                  | Some (hours, minutes) \<Rightarrow>
                     (let qs = filter (\<lambda>q. questions_quiz_id q = selected_quiz)
                                 (questions d)
                      in if qs = [] then Inl Unavailable
                         else
                          (case submission of
                             None \<Rightarrow>
                               Inr (Rendered
                                 (map (\<lambda>q. (questions_id q, rendered_options q)) qs))
                           | Some choice \<Rightarrow>
                              (case calculate_score d (collect_answers qs choice) 0 of
                                 Inl e \<Rightarrow> Inl e
                               | Inr score \<Rightarrow>
                                   Inr (Submitted
                                     (insert_score d selected_quiz user_id timestamp
                                        score (length qs))
                                     score (length qs))))))))))"

subsection \<open>Profile\<close>

text \<open>
  \<^verbatim>\<open>user_profile\<close>, on submit: the form exists when the session's user is found;
  the statement always sets four columns, and \<^verbatim>\<open>password\<close> too when a new password
  was typed; it addresses the row by user name.
\<close>

definition user_profile ::
  "db \<Rightarrow> string option \<Rightarrow> string \<Rightarrow> string \<Rightarrow> string \<Rightarrow> string \<Rightarrow> string \<Rightarrow> string
     \<Rightarrow> error + db" where
  "user_profile d username new_fullname new_qual new_dob new_email new_password
       confirm_password =
     (case find (\<lambda>u. Some (users_username u) = username) (users d) of
        None \<Rightarrow> Inl NotFound
      | Some user \<Rightarrow>
          if new_password \<noteq> [] \<and> new_password \<noteq> confirm_password
          then Inl ValidationError
          else Inr (d\<lparr>users :=
                 map (\<lambda>u. if Some (users_username u) = username
                           then u\<lparr>users_full_name := strip new_fullname,
                                  users_qualification := Some (strip new_qual),
                                  users_dob := Some new_dob,
                                  users_email := Some (strip new_email),
                                  users_password :=
                                    (if new_password \<noteq> [] then new_password
                                     else users_password u)\<rparr>
                           else u) (users d)\<rparr>))"

subsection \<open>The system as a whole\<close>

text \<open>
  One request is one submitted form or pressed button, run to completion before the
  next. A request that fails commits nothing and leaves the store as it was; rendering a
  page writes nothing.
\<close>

datatype request =
    Login string string string
  | Register string string string string string
  | SubjectsAdd string string
  | SubjectsUpdate nat string string
  | SubjectsDelete nat
  | ChaptersAdd nat string string
  | ChaptersUpdate nat nat nat string string
  | ChaptersDelete nat nat
  | QuizzesAdd nat string string string string
  | QuizzesUpdate nat nat nat string string string string bool
  | QuizzesDelete nat nat
  | QuestionsAdd nat string string string string string int
  | QuestionsUpdate nat nat nat string string string string string int
  | QuestionsDelete nat nat
  | UsersUpdate nat string string string string string
  | UsersDelete nat
  | TakeQuiz "string option" nat "(nat \<Rightarrow> string) option" string
  | UserProfile "string option" string string string string string string

fun handle :: "db \<Rightarrow> request \<Rightarrow> error + db" where
  "handle d (Login u p now) = login_page d u p now"
| "handle d (Register u p c f e) = register_page d u p c f e"
| "handle d (SubjectsAdd n ds) = manage_subjects_add d n ds"
| "handle d (SubjectsUpdate i n ds) = manage_subjects_update d i n ds"
| "handle d (SubjectsDelete i) = manage_subjects_delete d i"
| "handle d (ChaptersAdd s n ds) = manage_chapters_add d s n ds"
| "handle d (ChaptersUpdate f i s n ds) = manage_chapters_update d f i s n ds"
| "handle d (ChaptersDelete f i) = manage_chapters_delete d f i"
| "handle d (QuizzesAdd c n ds dt t) = manage_quizzes_add d c n ds dt t"
| "handle d (QuizzesUpdate f i c n ds dt t a) = manage_quizzes_update d f i c n ds dt t a"
| "handle d (QuizzesDelete f i) = manage_quizzes_delete d f i"
| "handle d (QuestionsAdd q s o1 o2 o3 o4 c) = manage_questions_add d q s o1 o2 o3 o4 c"
| "handle d (QuestionsUpdate f i q s o1 o2 o3 o4 c) =
     manage_questions_update d f i q s o1 o2 o3 o4 c"
| "handle d (QuestionsDelete f i) = manage_questions_delete d f i"
| "handle d (UsersUpdate i f q b e r) = manage_users_update d i f q b e r"
| "handle d (UsersDelete i) = manage_users_delete d i"
| "handle d (TakeQuiz u q sub ts) =
     (case take_quiz d u q sub ts of
        Inl e \<Rightarrow> Inl e
      | Inr (Rendered _) \<Rightarrow> Inr d
      | Inr (Submitted d' _ _) \<Rightarrow> Inr d')"
| "handle d (UserProfile u f q b e p c) = user_profile d u f q b e p c"

definition step :: "db \<Rightarrow> request \<Rightarrow> db" where
  "step d r = (case handle d r of Inl e \<Rightarrow> d | Inr d' \<Rightarrow> d')"

definition run :: "request list \<Rightarrow> db" where
  "run rs = foldl step init_db rs"

subsection \<open>Properties to be checked, and example stores\<close>



text \<open>At most one score row per pair of user and quiz.\<close>

definition one_score_per_pair :: "db \<Rightarrow> bool" where
  "one_score_per_pair d =
     distinct (map (\<lambda>s. (scores_user_id s, scores_quiz_id s)) (scores d))"

text \<open>
  A session of the administrator and of one user: a subject, a chapter, a quiz with one
  question whose options are A, B, C, D and whose correct option is 3, and the
  registration of the user.
\<close>

definition example_requests :: "request list" where
  "example_requests =
     [SubjectsAdd ''Math'' '''', ChaptersAdd 1 ''Algebra'' '''',
      QuizzesAdd 1 ''Quiz1'' '''' ''2030-01-01'' ''00:10'',
      QuestionsAdd 1 ''Pick C'' ''A'' ''B'' ''C'' ''D'' 3,
      Register ''alice'' ''pw'' ''pw'' ''Alice'' ''alice@example.org'']"


text \<open>The user of the example session takes the quiz and answers C.\<close>

definition attempt_requests :: "request list" where
  "attempt_requests =
     example_requests
     @ [TakeQuiz (Some ''alice'') 1 (Some (\<lambda>_. ''C'')) ''2030-01-01 10:00:00'']"

text \<open>
  After the attempt the administrator deletes the quiz's only question, which no guard
  prevents; the quiz then has no question and one score.
\<close>

definition scored_requests :: "request list" where
  "scored_requests = attempt_requests @ [QuestionsDelete 1 1]"


section \<open>Grading\<close>

















section \<open>One score per user and quiz\<close>

lemma take_quiz_Submitted:
  assumes "take_quiz d u quiz sub ts = Inr (Submitted d' sc n)"
  shows "\<exists>uid. get_user_id d u = Inr uid
           \<and> filter (\<lambda>s. scores_quiz_id s = quiz \<and> scores_user_id s = uid) (scores d) = []
           \<and> d' = insert_score d quiz uid ts sc n"
  using assms unfolding take_quiz_def Let_def
  by (auto split: if_splits sum.splits option.splits prod.splits)

lemma handle_scores:
  assumes "handle d r = Inr d'"
  shows "scores d' = scores d
       \<or> (\<exists>u quiz sub ts uid sc n. r = TakeQuiz u quiz sub ts \<and> get_user_id d u = Inr uid
           \<and> filter (\<lambda>s. scores_quiz_id s = quiz \<and> scores_user_id s = uid) (scores d) = []
           \<and> d' = insert_score d quiz uid ts sc n)"
proof (cases r)
  case (TakeQuiz u quiz sub ts)
  show ?thesis
  proof (cases "take_quiz d u quiz sub ts")
    case (Inl e)
    with assms TakeQuiz show ?thesis by simp
  next
    case (Inr res)
    show ?thesis
    proof (cases res)
      case (Rendered form)
      with assms TakeQuiz Inr show ?thesis by simp
    next
      case (Submitted d'' sc n)
      with assms TakeQuiz Inr have "d'' = d'" by simp
      with Submitted Inr take_quiz_Submitted[of d u quiz sub ts d' sc n] TakeQuiz
      show ?thesis by blast
    qed
  qed
qed (use assms in \<open>auto simp: login_page_def register_page_def
      manage_subjects_add_def manage_subjects_update_def manage_subjects_delete_def
      manage_chapters_add_def manage_chapters_update_def manage_chapters_delete_def
      manage_quizzes_add_def manage_quizzes_update_def manage_quizzes_delete_def
      manage_questions_add_def manage_questions_update_def manage_questions_delete_def
      manage_users_update_def manage_users_delete_def user_profile_def
      split: if_splits sum.splits option.splits\<close>)

lemma insert_score_keeps_pairs:
  assumes "one_score_per_pair d"
    and "filter (\<lambda>s. scores_quiz_id s = quiz \<and> scores_user_id s = uid) (scores d) = []"
  shows "one_score_per_pair (insert_score d quiz uid ts sc n)"
  using assms by (auto simp: one_score_per_pair_def insert_score_def filter_empty_conv)

lemma step_keeps_pairs:
  assumes "one_score_per_pair d"
  shows "one_score_per_pair (step d r)"
proof (cases "handle d r")
  case (Inl e)
  with assms show ?thesis by (simp add: step_def)
next
  case (Inr d')
  then have s: "step d r = d'" by (simp add: step_def)
  from handle_scores[OF Inr] show ?thesis
  proof
    assume "scores d' = scores d"
    with assms s show ?thesis by (simp add: one_score_per_pair_def)
  next
    assume "\<exists>u quiz sub ts uid sc n. r = TakeQuiz u quiz sub ts \<and> get_user_id d u = Inr uid
           \<and> filter (\<lambda>s. scores_quiz_id s = quiz \<and> scores_user_id s = uid) (scores d) = []
           \<and> d' = insert_score d quiz uid ts sc n"
    then obtain quiz uid ts sc n where
      "filter (\<lambda>s. scores_quiz_id s = quiz \<and> scores_user_id s = uid) (scores d) = []"
      and "d' = insert_score d quiz uid ts sc n" by blast
    with assms s show ?thesis by (simp add: insert_score_keeps_pairs)
  qed
qed

lemma run_snoc: "run (rs @ [r]) = step (run rs) r"
  by (simp add: run_def)

lemma run_keeps_pairs: "one_score_per_pair (run rs)"
proof (induction rs rule: rev_induct)
  case Nil
  show ?case by (simp add: run_def init_db_def one_score_per_pair_def)
next
  case (snoc r rs)
  then show ?case using step_keeps_pairs[of "run rs" r] by (simp add: run_snoc)
qed

lemma take_quiz_blocked:
  assumes "get_user_id d u = Inr uid"
    and "\<exists>s\<in>set (scores d). scores_user_id s = uid \<and> scores_quiz_id s = quiz"
  shows "take_quiz d u quiz sub ts
           = Inl (if quiz_options d = [] then Unavailable else AlreadyAttemptedError)"
  using assms unfolding take_quiz_def
  by (auto simp: filter_empty_conv)

text \<open>
  Claim C2. With one request handled at a time, the store never holds two score rows
  for the same user and quiz: this holds of the fresh store, every request preserves it,
  so it holds after any sequence of requests. When a score row exists for the user and
  the quiz, \<^verbatim>\<open>take_quiz\<close> stops with an error before it reads any question (with
  "already taken" whenever any quiz is on offer), whether or not a form was submitted,
  and the store is left as it was.
\<close>

theorem one_score_per_user_and_quiz:
  "one_score_per_pair (run rs)
   \<and> (one_score_per_pair d \<longrightarrow> one_score_per_pair (step d r))
   \<and> (get_user_id d u = Inr uid
        \<and> (\<exists>s\<in>set (scores d). scores_user_id s = uid \<and> scores_quiz_id s = quiz) \<longrightarrow>
        take_quiz d u quiz sub ts
          = Inl (if quiz_options d = [] then Unavailable else AlreadyAttemptedError)
        \<and> step d (TakeQuiz u quiz sub ts) = d)"
proof (intro conjI impI)
  show "one_score_per_pair (run rs)" by (rule run_keeps_pairs)
next
  assume "one_score_per_pair d"
  then show "one_score_per_pair (step d r)" by (rule step_keeps_pairs)
next
  assume a: "get_user_id d u = Inr uid
        \<and> (\<exists>s\<in>set (scores d). scores_user_id s = uid \<and> scores_quiz_id s = quiz)"
  then show b: "take_quiz d u quiz sub ts
          = Inl (if quiz_options d = [] then Unavailable else AlreadyAttemptedError)"
    using take_quiz_blocked by blast
  show "step d (TakeQuiz u quiz sub ts) = d"
    by (simp add: step_def b)
qed

theorem one_score_per_user_and_quiz_witness:
  "get_user_id (run attempt_requests) (Some ''alice'') = Inr 2
   \<and> map (\<lambda>s. (scores_user_id s, scores_quiz_id s)) (scores (run attempt_requests)) = [(2, 1)]
   \<and> quiz_options (run attempt_requests) \<noteq> []
   \<and> one_score_per_pair (run attempt_requests)
   \<and> take_quiz (run attempt_requests) (Some ''alice'') 1 (Some (\<lambda>_. ''A'')) ''later''
       = Inl AlreadyAttemptedError
   \<and> step (run attempt_requests) (TakeQuiz (Some ''alice'') 1 (Some (\<lambda>_. ''A'')) ''later'')
       = run attempt_requests
   \<and> one_score_per_pair
       (step (run attempt_requests)
          (TakeQuiz (Some ''alice'') 1 (Some (\<lambda>_. ''A'')) ''later''))"
proof -
  have u: "get_user_id (run attempt_requests) (Some ''alice'') = Inr 2"
    by code_simp
  have s: "map (\<lambda>s. (scores_user_id s, scores_quiz_id s)) (scores (run attempt_requests))
             = [(2, 1)]"
    by code_simp
  have q: "quiz_options (run attempt_requests) \<noteq> []"
    by code_simp
  have e: "\<exists>s\<in>set (scores (run attempt_requests)).
             scores_user_id s = 2 \<and> scores_quiz_id s = 1"
  proof -
    from s have "(2, 1) \<in> set (map (\<lambda>s. (scores_user_id s, scores_quiz_id s))
                               (scores (run attempt_requests)))"
      by simp
    then show ?thesis by auto
  qed
  from one_score_per_user_and_quiz
         [of attempt_requests "run attempt_requests"
             "TakeQuiz (Some ''alice'') 1 (Some (\<lambda>_. ''A'')) ''later''"
             "Some ''alice''" 2 1 "Some (\<lambda>_. ''A'')" "''later''"]
  show ?thesis using u s q e by simp
qed

section \<open>Delete guards\<close>

lemma chapter_options_iff:
  "c \<in> set (chapter_options d) \<longleftrightarrow>
     c \<in> set (chapters d) \<and> (\<exists>s\<in>set (subjects d). chapters_subject_id c = subjects_id s)"
  by (auto simp: chapter_options_def)

lemma chapters_listing_iff:
  "c \<in> set (chapters_listing d f) \<longleftrightarrow>
     c \<in> set (chapters d) \<and> chapters_subject_id c = f
     \<and> (\<exists>s\<in>set (subjects d). subjects_id s = f)"
  by (auto simp: chapters_listing_def split: if_splits)

lemma quizzes_listing_iff:
  "q \<in> set (quizzes_listing d f) \<longleftrightarrow>
     q \<in> set (quizzes d) \<and> quizzes_chapter_id q = f
     \<and> (\<exists>c\<in>set (chapter_options d). chapters_id c = f)"
  by (auto simp: quizzes_listing_def chapter_options_def split: if_splits)

lemma quiz_options_iff:
  "q \<in> set (quiz_options d) \<longleftrightarrow>
     q \<in> set (quizzes d) \<and> quizzes_is_active q
     \<and> (\<exists>c\<in>set (chapter_options d). chapters_id c = quizzes_chapter_id q)"
  by (auto simp: quiz_options_def chapter_options_def split: if_splits)

lemma chapters_listing_shown:
  "c \<in> set (chapters_listing d f) \<Longrightarrow> subjects d \<noteq> [] \<and> chapters_listing d f \<noteq> []"
  using chapters_listing_iff[of c d f] by auto

lemma quizzes_listing_shown:
  "q \<in> set (quizzes_listing d f) \<Longrightarrow> chapter_options d \<noteq> [] \<and> quizzes_listing d f \<noteq> []"
  using quizzes_listing_iff[of q d f] by auto

lemma example_tables:
  "subjects (run example_requests)
     = [\<lparr>subjects_id = 1, subjects_name = ''Math'', subjects_description = []\<rparr>]"
  "chapters (run example_requests)
     = [\<lparr>chapters_id = 1, chapters_subject_id = 1, chapters_name = ''Algebra'',
          chapters_description = []\<rparr>]"
  "quizzes (run example_requests)
     = [\<lparr>quizzes_id = 1, quizzes_chapter_id = 1, quizzes_name = ''Quiz1'',
          quizzes_description = [], quizzes_date_of_quiz = ''2030-01-01'',
          quizzes_time_duration = ''00:10'', quizzes_is_active = True\<rparr>]"
  "questions (run example_requests)
     = [\<lparr>questions_id = 1, questions_quiz_id = 1,
          questions_question_statement = ''Pick C'', questions_option1 = ''A'',
          questions_option2 = ''B'', questions_option3 = Some ''C'',
          questions_option4 = Some ''D'', questions_correct_option = 3\<rparr>]"
  "users (run example_requests)
     = [\<lparr>users_id = 1, users_username = ''admin'', users_password = ''admin123'',
          users_full_name = ''Admin User'', users_qualification = None, users_dob = None,
          users_role = ''admin'', users_email = None, users_last_login = None\<rparr>,
        \<lparr>users_id = 2, users_username = ''alice'', users_password = ''pw'',
          users_full_name = ''Alice'', users_qualification = None, users_dob = None,
          users_role = ''user'', users_email = Some ''alice@example.org'',
          users_last_login = None\<rparr>]"
  "scores (run example_requests) = []"
  by code_simp+

text \<open>
  Claim C5. Deleting a subject that some chapter references fails with
  HasDependentsError and leaves the store as it was, so the subject and its chapters
  stay; when no chapter references it, the subject's row is removed and the change
  committed. The same holds for a listed chapter and its quizzes, and for a listed quiz
  and its questions.
\<close>

theorem delete_guards:
  "(\<forall>s \<in> set (subjects d).
      if \<exists>c \<in> set (chapters d). chapters_subject_id c = subjects_id s
      then manage_subjects_delete d (subjects_id s) = Inl HasDependentsError
         \<and> step d (SubjectsDelete (subjects_id s)) = d
      else manage_subjects_delete d (subjects_id s)
             = Inr (d\<lparr>subjects := filter (\<lambda>r. subjects_id r \<noteq> subjects_id s) (subjects d)\<rparr>)
         \<and> s \<notin> set (subjects (step d (SubjectsDelete (subjects_id s)))))
   \<and> (\<forall>c \<in> set (chapters_listing d f).
      if \<exists>q \<in> set (quizzes d). quizzes_chapter_id q = chapters_id c
      then manage_chapters_delete d f (chapters_id c) = Inl HasDependentsError
         \<and> step d (ChaptersDelete f (chapters_id c)) = d
      else manage_chapters_delete d f (chapters_id c)
             = Inr (d\<lparr>chapters := filter (\<lambda>r. chapters_id r \<noteq> chapters_id c) (chapters d)\<rparr>)
         \<and> c \<notin> set (chapters (step d (ChaptersDelete f (chapters_id c)))))
   \<and> (\<forall>q \<in> set (quizzes_listing d g).
      if \<exists>x \<in> set (questions d). questions_quiz_id x = quizzes_id q
      then manage_quizzes_delete d g (quizzes_id q) = Inl HasDependentsError
         \<and> step d (QuizzesDelete g (quizzes_id q)) = d
      else manage_quizzes_delete d g (quizzes_id q)
             = Inr (d\<lparr>quizzes := filter (\<lambda>r. quizzes_id r \<noteq> quizzes_id q) (quizzes d)\<rparr>)
         \<and> q \<notin> set (quizzes (step d (QuizzesDelete g (quizzes_id q)))))"
proof (intro conjI ballI)
  fix s assume "s \<in> set (subjects d)"
  then have "subjects d \<noteq> []" by auto
  then show "if \<exists>c \<in> set (chapters d). chapters_subject_id c = subjects_id s
      then manage_subjects_delete d (subjects_id s) = Inl HasDependentsError
         \<and> step d (SubjectsDelete (subjects_id s)) = d
      else manage_subjects_delete d (subjects_id s)
             = Inr (d\<lparr>subjects := filter (\<lambda>r. subjects_id r \<noteq> subjects_id s) (subjects d)\<rparr>)
         \<and> s \<notin> set (subjects (step d (SubjectsDelete (subjects_id s))))"
    by (simp add: manage_subjects_delete_def step_def filter_empty_conv)
next
  fix c assume "c \<in> set (chapters_listing d f)"
  then have "subjects d \<noteq> [] \<and> chapters_listing d f \<noteq> []"
    by (rule chapters_listing_shown)
  then show "if \<exists>q \<in> set (quizzes d). quizzes_chapter_id q = chapters_id c
      then manage_chapters_delete d f (chapters_id c) = Inl HasDependentsError
         \<and> step d (ChaptersDelete f (chapters_id c)) = d
      else manage_chapters_delete d f (chapters_id c)
             = Inr (d\<lparr>chapters := filter (\<lambda>r. chapters_id r \<noteq> chapters_id c) (chapters d)\<rparr>)
         \<and> c \<notin> set (chapters (step d (ChaptersDelete f (chapters_id c))))"
    by (simp add: manage_chapters_delete_def step_def filter_empty_conv)
next
  fix q assume "q \<in> set (quizzes_listing d g)"
  then have "chapter_options d \<noteq> [] \<and> quizzes_listing d g \<noteq> []"
    by (rule quizzes_listing_shown)
  then show "if \<exists>x \<in> set (questions d). questions_quiz_id x = quizzes_id q
      then manage_quizzes_delete d g (quizzes_id q) = Inl HasDependentsError
         \<and> step d (QuizzesDelete g (quizzes_id q)) = d
      else manage_quizzes_delete d g (quizzes_id q)
             = Inr (d\<lparr>quizzes := filter (\<lambda>r. quizzes_id r \<noteq> quizzes_id q) (quizzes d)\<rparr>)
         \<and> q \<notin> set (quizzes (step d (QuizzesDelete g (quizzes_id q))))"
    by (simp add: manage_quizzes_delete_def step_def filter_empty_conv)
qed

theorem delete_guards_witness:
  "manage_subjects_delete (run example_requests) 1 = Inl HasDependentsError
   \<and> step (run example_requests) (SubjectsDelete 1) = run example_requests
   \<and> manage_chapters_delete (run example_requests) 1 1 = Inl HasDependentsError
   \<and> step (run example_requests) (ChaptersDelete 1 1) = run example_requests
   \<and> manage_quizzes_delete (run example_requests) 1 1 = Inl HasDependentsError
   \<and> step (run example_requests) (QuizzesDelete 1 1) = run example_requests
   \<and> manage_subjects_delete (run [SubjectsAdd ''Art'' []]) 1
       = Inr ((run [SubjectsAdd ''Art'' []])\<lparr>subjects := []\<rparr>)
   \<and> subjects (step (run [SubjectsAdd ''Art'' []]) (SubjectsDelete 1)) = []"
proof -
  have l: "chapters_listing (run example_requests) 1 = chapters (run example_requests)"
          "quizzes_listing (run example_requests) 1 = quizzes (run example_requests)"
    by code_simp+
  have a: "subjects (run [SubjectsAdd ''Art'' []])
             = [\<lparr>subjects_id = 1, subjects_name = ''Art'', subjects_description = []\<rparr>]"
          "chapters (run [SubjectsAdd ''Art'' []]) = []"
    by code_simp+
  have e: "subjects (step (run [SubjectsAdd ''Art'' []]) (SubjectsDelete 1)) = []"
    by code_simp
  from delete_guards[of "run example_requests" 1 1]
       delete_guards[of "run [SubjectsAdd ''Art'' []]" 1 1]
  show ?thesis using l a e by (simp add: example_tables)
qed

section \<open>Users: deletion, registration, updates\<close>




text \<open>
  Claim C8. Registration fails with ValidationError when the two passwords differ, and
  with DuplicateUserError when they agree and the user name is already stored; a failed
  registration commits nothing, so every stored row is as it was. Otherwise it appends
  exactly one user row, with the next id, the role "user" and the submitted name,
  password, full name and email, and leaves the rows already stored as they were.
\<close>

theorem registration_outcomes:
  "register_page d username password confirm_password full_name email
     = (if password \<noteq> confirm_password then Inl ValidationError
        else if \<exists>u\<in>set (users d). users_username u = username
        then Inl DuplicateUserError
        else Inr (d\<lparr>users := users d @
                       [\<lparr>users_id = seq_users d + 1, users_username = username,
                         users_password = password, users_full_name = full_name,
                         users_qualification = None, users_dob = None,
                         users_role = ''user'', users_email = Some email,
                         users_last_login = None\<rparr>],
                     seq_users := seq_users d + 1\<rparr>))
   \<and> (password \<noteq> confirm_password \<or> (\<exists>u\<in>set (users d). users_username u = username)
        \<longrightarrow> step d (Register username password confirm_password full_name email) = d)
   \<and> (password = confirm_password \<and> \<not> (\<exists>u\<in>set (users d). users_username u = username)
        \<longrightarrow> length (users (step d (Register username password confirm_password
                                         full_name email)))
              = length (users d) + 1
          \<and> take (length (users d))
               (users (step d (Register username password confirm_password full_name email)))
              = users d
          \<and> users_role (last (users (step d (Register username password confirm_password
                                                full_name email))))
              = ''user'')"
  by (auto simp: register_page_def step_def)

theorem registration_outcomes_witness:
  "register_page init_db ''bob'' ''pw'' ''pv'' ''Bob'' ''b@example.org'' = Inl ValidationError
   \<and> register_page init_db ''admin'' ''pw'' ''pw'' ''Eve'' ''e@example.org''
       = Inl DuplicateUserError
   \<and> step init_db (Register ''admin'' ''pw'' ''pw'' ''Eve'' ''e@example.org'') = init_db
   \<and> map users_username
        (users (step init_db (Register ''bob'' ''pw'' ''pw'' ''Bob'' ''b@example.org'')))
       = [''admin'', ''bob'']
   \<and> users_role
        (last (users (step init_db (Register ''bob'' ''pw'' ''pw'' ''Bob'' ''b@example.org''))))
       = ''user''"
proof -
  have m: "map users_username
        (users (step init_db (Register ''bob'' ''pw'' ''pw'' ''Bob'' ''b@example.org'')))
       = [''admin'', ''bob'']"
    by code_simp
  from registration_outcomes[of init_db "''bob''" "''pw''" "''pv''" "''Bob''" "''b@example.org''"]
       registration_outcomes[of init_db "''admin''" "''pw''" "''pw''" "''Eve''" "''e@example.org''"]
       registration_outcomes[of init_db "''bob''" "''pw''" "''pw''" "''Bob''" "''b@example.org''"]
  show ?thesis using m by (simp add: init_db_def)
qed

text \<open>
  Claim C10. The administrator's update of a user writes full_name, qualification,
  date of birth, email and role of the rows with the selected id and nothing else: every
  row keeps its id, user name, password and last login, rows with another id are
  untouched, and so are the other tables. The profile update writes full_name,
  qualification, date of birth, email, and the password only when a new one is typed, of
  the rows with the session's user name: every row keeps its id, user name, role and
  last login, and its password when no new one is typed; other rows and tables are
  untouched.
\<close>

theorem user_updates_frame:
  "(manage_users_update d user_id new_fullname new_qual new_dob new_email new_role = Inr d'
      \<longrightarrow> d' = d\<lparr>users := users d'\<rparr>
        \<and> list_all2
            (\<lambda>u u'. users_id u' = users_id u \<and> users_username u' = users_username u
                  \<and> users_password u' = users_password u
                  \<and> users_last_login u' = users_last_login u
                  \<and> (users_id u \<noteq> user_id \<longrightarrow> u' = u))
            (users d) (users d'))
   \<and> (user_profile d username new_fullname new_qual new_dob new_email new_password
         confirm_password = Inr d'
      \<longrightarrow> d' = d\<lparr>users := users d'\<rparr>
        \<and> list_all2
            (\<lambda>u u'. users_id u' = users_id u \<and> users_username u' = users_username u
                  \<and> users_role u' = users_role u
                  \<and> users_last_login u' = users_last_login u
                  \<and> (new_password = [] \<longrightarrow> users_password u' = users_password u)
                  \<and> (Some (users_username u) \<noteq> username \<longrightarrow> u' = u))
            (users d) (users d'))"
  by (auto simp: manage_users_update_def user_profile_def list_all2_map2 list_all2_same
           split: sum.splits option.splits if_splits)

theorem user_updates_frame_witness:
  "manage_users_update (run example_requests) 2 ''Alice B'' ''BSc'' ''2000-01-01''
       ''a@example.org'' ''admin''
     = Inr (step (run example_requests)
              (UsersUpdate 2 ''Alice B'' ''BSc'' ''2000-01-01'' ''a@example.org'' ''admin''))
   \<and> map users_role
        (users (step (run example_requests)
           (UsersUpdate 2 ''Alice B'' ''BSc'' ''2000-01-01'' ''a@example.org'' ''admin'')))
       = [''admin'', ''admin'']
   \<and> list_all2
        (\<lambda>u u'. users_id u' = users_id u \<and> users_username u' = users_username u
              \<and> users_password u' = users_password u
              \<and> users_last_login u' = users_last_login u
              \<and> (users_id u \<noteq> 2 \<longrightarrow> u' = u))
        (users (run example_requests))
        (users (step (run example_requests)
           (UsersUpdate 2 ''Alice B'' ''BSc'' ''2000-01-01'' ''a@example.org'' ''admin'')))
   \<and> user_profile (run example_requests) (Some ''alice'') ''Alice C'' ''MSc'' ''2000-01-01''
       ''c@example.org'' ''new'' ''new''
       = Inr (step (run example_requests)
                (UserProfile (Some ''alice'') ''Alice C'' ''MSc'' ''2000-01-01''
                   ''c@example.org'' ''new'' ''new''))
   \<and> map users_password
        (users (step (run example_requests)
           (UserProfile (Some ''alice'') ''Alice C'' ''MSc'' ''2000-01-01''
              ''c@example.org'' ''new'' ''new'')))
       = [''admin123'', ''new'']
   \<and> list_all2
        (\<lambda>u u'. users_id u' = users_id u \<and> users_username u' = users_username u
              \<and> users_role u' = users_role u
              \<and> users_last_login u' = users_last_login u
              \<and> (''new'' = [] \<longrightarrow> users_password u' = users_password u)
              \<and> (Some (users_username u) \<noteq> Some ''alice'' \<longrightarrow> u' = u))
        (users (run example_requests))
        (users (step (run example_requests)
           (UserProfile (Some ''alice'') ''Alice C'' ''MSc'' ''2000-01-01''
              ''c@example.org'' ''new'' ''new'')))"
proof -
  have a: "manage_users_update (run example_requests) 2 ''Alice B'' ''BSc'' ''2000-01-01''
       ''a@example.org'' ''admin''
     = Inr (step (run example_requests)
              (UsersUpdate 2 ''Alice B'' ''BSc'' ''2000-01-01'' ''a@example.org'' ''admin''))"
    by code_simp
  have b: "map users_role
        (users (step (run example_requests)
           (UsersUpdate 2 ''Alice B'' ''BSc'' ''2000-01-01'' ''a@example.org'' ''admin'')))
       = [''admin'', ''admin'']"
    by code_simp
  have c: "user_profile (run example_requests) (Some ''alice'') ''Alice C'' ''MSc''
       ''2000-01-01'' ''c@example.org'' ''new'' ''new''
       = Inr (step (run example_requests)
                (UserProfile (Some ''alice'') ''Alice C'' ''MSc'' ''2000-01-01''
                   ''c@example.org'' ''new'' ''new''))"
    by code_simp
  have e: "map users_password
        (users (step (run example_requests)
           (UserProfile (Some ''alice'') ''Alice C'' ''MSc'' ''2000-01-01''
              ''c@example.org'' ''new'' ''new'')))
       = [''admin123'', ''new'']"
    by code_simp
  note f = user_updates_frame
         [of "run example_requests" 2 "''Alice B''" "''BSc''" "''2000-01-01''"
             "''a@example.org''" "''admin''"
             "step (run example_requests)
                (UsersUpdate 2 ''Alice B'' ''BSc'' ''2000-01-01'' ''a@example.org'' ''admin'')"]
  note g = user_updates_frame
         [of "run example_requests" _ "''Alice C''" "''MSc''" "''2000-01-01''"
             "''c@example.org''" _
             "step (run example_requests)
                (UserProfile (Some ''alice'') ''Alice C'' ''MSc'' ''2000-01-01''
                   ''c@example.org'' ''new'' ''new'')"
             "Some ''alice''" "''new''" "''new''"]
  from f a have 1: "list_all2
        (\<lambda>u u'. users_id u' = users_id u \<and> users_username u' = users_username u
              \<and> users_password u' = users_password u
              \<and> users_last_login u' = users_last_login u
              \<and> (users_id u \<noteq> 2 \<longrightarrow> u' = u))
        (users (run example_requests))
        (users (step (run example_requests)
           (UsersUpdate 2 ''Alice B'' ''BSc'' ''2000-01-01'' ''a@example.org'' ''admin'')))"
    by blast
  from g c have 2: "list_all2
        (\<lambda>u u'. users_id u' = users_id u \<and> users_username u' = users_username u
              \<and> users_role u' = users_role u
              \<and> users_last_login u' = users_last_login u
              \<and> (''new'' = [] \<longrightarrow> users_password u' = users_password u)
              \<and> (Some (users_username u) \<noteq> Some ''alice'' \<longrightarrow> u' = u))
        (users (run example_requests))
        (users (step (run example_requests)
           (UserProfile (Some ''alice'') ''Alice C'' ''MSc'' ''2000-01-01''
              ''c@example.org'' ''new'' ''new'')))"
    by blast
  from a b c e 1 2 show ?thesis by blast
qed

section \<open>Quiz durations\<close>









section \<open>Question rows\<close>






section \<open>Defects\<close>

text \<open>
  Claim C6 (the code departs from it). In the store reached by \<^const>\<open>scored_requests\<close>
  quiz 1 has no question and one score row. The delete handler counts questions only:
  it removes the quiz and leaves the score row, which then references no quiz.
\<close>

theorem quiz_delete_orphans_scores:
  "questions (run scored_requests) = []
   \<and> map quizzes_id (quizzes (run scored_requests)) = [1]
   \<and> map scores_quiz_id (scores (run scored_requests)) = [1]
   \<and> manage_quizzes_delete (run scored_requests) 1 1
       = Inr ((run scored_requests)\<lparr>quizzes := []\<rparr>)
   \<and> quizzes (step (run scored_requests) (QuizzesDelete 1 1)) = []
   \<and> map scores_quiz_id (scores (step (run scored_requests) (QuizzesDelete 1 1))) = [1]"
  by (intro conjI; code_simp)

text \<open>
  Claim C9 (the code departs from it). The required-name check of the subject forms
  tests the text as typed, and the text is stripped only afterwards: a name of three
  spaces passes the check and a subject with the empty name is stored, by the add form
  and by the edit form alike. A name with other content is stored stripped.
\<close>

theorem subject_blank_name_stored:
  "manage_subjects_add init_db ''   '' []
     = Inr (init_db\<lparr>subjects := [\<lparr>subjects_id = 1, subjects_name = [],
                                   subjects_description = []\<rparr>],
                    seq_subjects := 1\<rparr>)
   \<and> map subjects_name
        (subjects (step (run example_requests) (SubjectsUpdate 1 ''   '' []))) = [[]]
   \<and> manage_subjects_add init_db [] [] = Inl ValidationError
   \<and> map subjects_name (subjects (step init_db (SubjectsAdd '' Math '' []))) = [''Math'']"
  by (intro conjI; code_simp)

end
